theory Spec2Isabelle
  imports Complex_Main "HOL-Library.Sublist"
begin

section \<open>Python values shared by the modules\<close>

text \<open>
  Exceptions are values. Every \<^verbatim>\<open>raise\<close> of the sources, and every exception an
  external call (aiohttp, the file system, pydantic, huggingface\_hub) can throw into
  them, is a constructor here; \<open>str_of\<close> is Python's \<^verbatim>\<open>str(e)\<close>, which the
  orchestrator copies into error messages.
\<close>

datatype py_exception =
    ValueError string
  | ConfigurationError string
  | AttributeError string
  | TypeError string
  | KeyError string
  | IndexError string
  | FileExistsError string
  | ClientError string
  | TimeoutError
  | ProvisioningError string
  | OtherException string

fun str_of :: "py_exception \<Rightarrow> string" where
  "str_of (ValueError m) = m"
| "str_of (ConfigurationError m) = m"
| "str_of (AttributeError m) = m"
| "str_of (TypeError m) = m"
| "str_of (KeyError m) = m"
| "str_of (IndexError m) = m"
| "str_of (FileExistsError m) = m"
| "str_of (ClientError m) = m"
| "str_of TimeoutError = []"
| "str_of (ProvisioningError m) = m"
| "str_of (OtherException m) = m"

text \<open>
  What awaiting a coroutine, or calling into a library, gives back: it raises or it
  returns.
\<close>

datatype 'a outcome = Raises py_exception | Returns 'a

text \<open>Python's truth value of an \<^verbatim>\<open>Optional[str]\<close>: \<^verbatim>\<open>None\<close> and \<^verbatim>\<open>""\<close> are false.\<close>

fun truthy :: "string option \<Rightarrow> bool" where
  "truthy None = False"
| "truthy (Some s) = (s \<noteq> [])"


text \<open>\<^verbatim>\<open>repr\<close> of an \<^verbatim>\<open>Optional[str]\<close> (for strings without quotes or escapes).\<close>

fun py_repr :: "string option \<Rightarrow> string" where
  "py_repr None = ''None''"
| "py_repr (Some s) = CHR 0x27 # s @ [CHR 0x27]"

text \<open>
  The decimal digits of a natural number, which is how an f-string prints the index
  that \<^verbatim>\<open>enumerate\<close> yields.
\<close>

definition digit_char :: "nat \<Rightarrow> char" where
  "digit_char d = ''0123456789'' ! (d mod 10)"

function nat_digits :: "nat \<Rightarrow> string \<Rightarrow> string" where
  "nat_digits n acc =
     (if n div 10 = 0 then digit_char n # acc
      else nat_digits (n div 10) (digit_char n # acc))"
  by pat_completeness auto
termination
  by (relation "measure (\<lambda>(n, acc). n)") auto

declare nat_digits.simps [simp del]

definition str_nat :: "nat \<Rightarrow> string" where
  "str_nat n = nat_digits n []"

text \<open>\<^verbatim>\<open>str\<close> of a Python int.\<close>

definition str_int :: "int \<Rightarrow> string" where
  "str_int i = (if 0 \<le> i then str_nat (nat i) else CHR ''-'' # str_nat (nat (- i)))"

section \<open>Data model (models.py)\<close>

datatype ModelSource = HUGGINGFACE | CIVITAI | DIRECT_URL

text \<open>How an f-string prints a member of the enum.\<close>

definition ModelSource_str :: "ModelSource \<Rightarrow> string" where
  "ModelSource_str s =
     (case s of
        HUGGINGFACE \<Rightarrow> ''ModelSource.HUGGINGFACE''
      | CIVITAI \<Rightarrow> ''ModelSource.CIVITAI''
      | DIRECT_URL \<Rightarrow> ''ModelSource.DIRECT_URL'')"

text \<open>
  \<^verbatim>\<open>ModelSource(value)\<close>: the enum looked up by value (\<^verbatim>\<open>huggingface\<close>, \<^verbatim>\<open>civitai\<close>,
  \<^verbatim>\<open>url\<close>); any other value, \<^verbatim>\<open>None\<close> included, raises \<^verbatim>\<open>ValueError\<close>.
\<close>

definition ModelSource_of :: "string option \<Rightarrow> py_exception + ModelSource" where
  "ModelSource_of v =
     (if v = Some ''huggingface'' then Inr HUGGINGFACE
      else if v = Some ''civitai'' then Inr CIVITAI
      else if v = Some ''url'' then Inr DIRECT_URL
      else Inl (ValueError (py_repr v @ '' is not a valid ModelSource'')))"

text \<open>
  \<^verbatim>\<open>ModelConfigPydantic\<close>, as \<^verbatim>\<open>_download_models_typed\<close> reads it: the fields of a
  validated manifest entry. \<^verbatim>\<open>url\<close> is the text of the \<^verbatim>\<open>HttpUrl\<close>.
\<close>

record ModelConfigPydantic =
  d_source :: "string option"
  d_repo :: "string option"
  d_version_id :: "string option"
  d_url :: "string option"
  d_filename :: "string option"
  d_file :: "string option"
  d_gated :: bool
  d_headers :: "(string \<times> string) list"

record ModelConfig =
  mc_name :: string
  mc_source :: ModelSource
  mc_target_dir :: string
  mc_repo :: "string option"
  mc_version_id :: "string option"
  mc_url :: "string option"
  mc_filename :: "string option"
  mc_file :: "string option"
  mc_gated :: bool
  mc_headers :: "(string \<times> string) list"

text \<open>\<^verbatim>\<open>ModelConfig.__post_init__\<close>: the dataclass is built, then validated.\<close>

definition post_init :: "ModelConfig \<Rightarrow> py_exception + ModelConfig" where
  "post_init c =
     (if mc_source c = HUGGINGFACE \<and> \<not> truthy (mc_repo c) then
        Inl (ConfigurationError (''HuggingFace models require 'repo' field for '' @ mc_name c))
      else if mc_source c = CIVITAI \<and> \<not> truthy (mc_version_id c) then
        Inl (ConfigurationError (''CivitAI models require 'version_id' field for '' @ mc_name c))
      else if mc_source c = DIRECT_URL \<and> \<not> truthy (mc_url c) then
        Inl (ConfigurationError (''Direct URL models require 'url' field for '' @ mc_name c))
      else Inr c)"

record DownloadResult =
  dr_model_name :: string
  dr_success :: bool
  dr_error_message :: "string option"
  dr_file_path :: "string option"
  dr_size_bytes :: "int option"

record ProvisioningSummary =
  total_models :: int
  successful_downloads :: int
  failed_downloads :: int
  skipped_models :: int
  results :: "DownloadResult list"

text \<open>
  \<^verbatim>\<open>ProvisioningSummary.success_rate\<close>. Python divides two ints as floats and
  multiplies by 100; the model computes the same expression over the reals.
\<close>

definition success_rate :: "ProvisioningSummary \<Rightarrow> real" where
  "success_rate s =
     (if total_models s = 0 then 0
      else (real_of_int (successful_downloads s) / real_of_int (total_models s)) * 100)"

section \<open>The environment: log records, paths and the file system\<close>

text \<open>
  A run leaves a trace: the records handed to the logger (level and message; the
  emoji of the sources' messages are left out), the HTTP requests sent, and the calls
  into the huggingface\_hub library, which go to the network as well.
\<close>

datatype level = INFO | WARNING | ERROR

datatype event =
    Log level string
  | HttpGet string
  | HttpHead string
  | HubCall string

fun is_request :: "event \<Rightarrow> bool" where
  "is_request (Log l m) = False"
| "is_request (HttpGet u) = True"
| "is_request (HttpHead u) = True"
| "is_request (HubCall u) = True"


fun is_error_log :: "event \<Rightarrow> bool" where
  "is_error_log (Log l m) = (l = ERROR)"
| "is_error_log (HttpGet u) = False"
| "is_error_log (HttpHead u) = False"
| "is_error_log (HubCall u) = False"

text \<open>
  Paths are strings. \<open>path_join\<close> is \<^verbatim>\<open>Path.__truediv__\<close> on them: joining the empty
  string gives the directory itself, an absolute right operand replaces the left one.
  \<open>path_parent\<close> is \<^verbatim>\<open>Path.parent\<close>.
\<close>

definition path_join :: "string \<Rightarrow> string \<Rightarrow> string" where
  "path_join d f =
     (if f = [] then d else if hd f = CHR ''/'' then f else d @ ''/'' @ f)"

definition path_parent :: "string \<Rightarrow> string" where
  "path_parent p = rev (drop 1 (dropWhile (\<lambda>c. c \<noteq> CHR ''/'') (rev p)))"

text \<open>
  The file system maps a path to what is there: a directory, or a file with the chunks
  written to it so far.
\<close>

datatype node = Dir | File "string list"

type_synonym fs = "string \<Rightarrow> node option"

definition path_exists :: "fs \<Rightarrow> string \<Rightarrow> bool" where
  "path_exists fs p = (fs p \<noteq> None)"

text \<open>\<^verbatim>\<open>Path.mkdir(parents=True, exist_ok=True)\<close>: it raises when the path is a file.\<close>

definition mkdir_parents :: "fs \<Rightarrow> string \<Rightarrow> py_exception + fs" where
  "mkdir_parents fs p =
     (case fs p of
        Some (File cs) \<Rightarrow> Inl (FileExistsError p)
      | _ \<Rightarrow> Inr (fs(p \<mapsto> Dir)))"

text \<open>\<^verbatim>\<open>open(p, 'wb')\<close> truncates or creates the file; on a directory it raises.\<close>

definition open_wb :: "fs \<Rightarrow> string \<Rightarrow> py_exception + fs" where
  "open_wb fs p =
     (case fs p of
        Some Dir \<Rightarrow> Inl (OtherException (''Is a directory: '' @ p))
      | _ \<Rightarrow> Inr (fs(p \<mapsto> File [])))"

definition write_chunk :: "fs \<Rightarrow> string \<Rightarrow> string \<Rightarrow> fs" where
  "write_chunk fs p c =
     (case fs p of Some (File cs) \<Rightarrow> fs(p \<mapsto> File (cs @ [c])) | _ \<Rightarrow> fs)"


section \<open>JSON and TOML values\<close>

datatype json =
    JNull
  | JBool bool
  | JNum int
  | JStr string
  | JArr "json list"
  | JObj "(string \<times> json) list"

datatype toml =
    TStr string
  | TInt int
  | TBool bool
  | TTable "(string \<times> toml) list"

text \<open>Python's truth value of a parsed TOML value.\<close>

fun toml_truthy :: "toml \<Rightarrow> bool" where
  "toml_truthy (TStr s) = (s \<noteq> [])"
| "toml_truthy (TInt i) = (i \<noteq> 0)"
| "toml_truthy (TBool b) = b"
| "toml_truthy (TTable kv) = (kv \<noteq> [])"

text \<open>How an f-string prints a value that is expected to be a string.\<close>

fun json_text :: "json \<Rightarrow> string" where
  "json_text (JStr s) = s"
| "json_text j = ''<value>''"

fun toml_text :: "toml \<Rightarrow> string" where
  "toml_text (TStr s) = s"
| "toml_text t = ''<value>''"

text \<open>
  An HTTP response as the sources read it: the status, the headers (names in lower
  case), \<^verbatim>\<open>int(response.headers.get('content-length', 0))\<close> (parsing the header can
  raise), the body as text, the body as JSON (decoding can raise), and the body as a
  stream of chunks that ends normally or with an exception (a dropped connection, the
  session's timeout).
\<close>

record http_response =
  status :: int
  resp_headers :: "(string \<times> string) list"
  content_length :: "int outcome"
  body_text :: string
  body_json :: "json outcome"
  body_chunks :: "string list"
  body_error :: "py_exception option"

section \<open>Token validation (validators/tokens.py)\<close>

text \<open>
  The validator reads both tokens from the environment when it is built. A probe is
  what the GET gives when it is sent: a response, or an exception of the HTTP client.
\<close>

record TokenValidator =
  hf_token :: "string option"
  civitai_token :: "string option"

text \<open>The body of the \<^verbatim>\<open>try\<close> of \<^verbatim>\<open>validate_hf_token\<close>.\<close>

definition validate_hf_token_try ::
  "http_response outcome \<Rightarrow> event list \<times> bool outcome" where
  "validate_hf_token_try probe =
     (case probe of
        Raises e \<Rightarrow> ([HttpGet ''https://huggingface.co/api/whoami-v2''], Raises e)
      | Returns response \<Rightarrow>
          if status response = 200 then
            (case body_json response of
               Raises e \<Rightarrow> ([HttpGet ''https://huggingface.co/api/whoami-v2''], Raises e)
             | Returns (JObj kv) \<Rightarrow>
                 ([HttpGet ''https://huggingface.co/api/whoami-v2'',
                   Log INFO (''HuggingFace token valid for user: '' @
                     (case map_of kv ''name'' of None \<Rightarrow> ''unknown'' | Some v \<Rightarrow> json_text v))],
                  Returns True)
             | Returns other \<Rightarrow>
                 ([HttpGet ''https://huggingface.co/api/whoami-v2''],
                  Raises (AttributeError ''object has no attribute get'')))
          else
            ([HttpGet ''https://huggingface.co/api/whoami-v2'',
              Log ERROR (''HuggingFace token validation failed: HTTP '' @
                str_int (status response))],
             Returns False))"

definition validate_hf_token ::
  "TokenValidator \<Rightarrow> http_response outcome \<Rightarrow> event list \<times> bool outcome" where
  "validate_hf_token v probe =
     (if \<not> truthy (hf_token v) then
        ([Log WARNING ''No HF_TOKEN environment variable found''], Returns False)
      else
        (case validate_hf_token_try probe of
           (evs, Raises e) \<Rightarrow>
             (evs @ [Log ERROR (''HuggingFace token validation error: '' @ str_of e)],
              Returns False)
         | (evs, Returns b) \<Rightarrow> (evs, Returns b)))"

definition validate_civitai_token_try ::
  "http_response outcome \<Rightarrow> event list \<times> bool outcome" where
  "validate_civitai_token_try probe =
     (case probe of
        Raises e \<Rightarrow> ([HttpGet ''https://civitai.com/api/v1/models?hidden=1&limit=1''], Raises e)
      | Returns response \<Rightarrow>
          if status response = 200 then
            ([HttpGet ''https://civitai.com/api/v1/models?hidden=1&limit=1'',
              Log INFO ''CivitAI token is valid''],
             Returns True)
          else
            ([HttpGet ''https://civitai.com/api/v1/models?hidden=1&limit=1'',
              Log ERROR (''CivitAI token validation failed: HTTP '' @
                str_int (status response))],
             Returns False))"

definition validate_civitai_token ::
  "TokenValidator \<Rightarrow> http_response outcome \<Rightarrow> event list \<times> bool outcome" where
  "validate_civitai_token v probe =
     (if \<not> truthy (civitai_token v) then
        ([Log WARNING ''No CIVITAI_TOKEN environment variable found''], Returns False)
      else
        (case validate_civitai_token_try probe of
           (evs, Raises e) \<Rightarrow>
             (evs @ [Log ERROR (''CivitAI token validation error: '' @ str_of e)],
              Returns False)
         | (evs, Returns b) \<Rightarrow> (evs, Returns b)))"

section \<open>The orchestrator (core.py)\<close>

record ProvisioningSystem =
  models_dir :: string
  logs_dir :: string
  dry_run :: bool
  max_concurrent :: int
  token_validator :: TokenValidator

text \<open>
  \<^verbatim>\<open>ProvisioningSystem.__init__\<close>, as far as the fields above go. \<^verbatim>\<open>max_concurrent\<close>
  defaults to 5 when the caller leaves it out; \<^verbatim>\<open>asyncio.Semaphore\<close> refuses a negative
  value; both directories are created and the log file is opened. The constructors of
  the parser, the progress tracker and the downloaders are not part of it.
\<close>

definition ProvisioningSystem_init ::
  "string option \<Rightarrow> int option \<Rightarrow> (string \<Rightarrow> string option) \<Rightarrow> fs
     \<Rightarrow> fs \<times> ProvisioningSystem outcome" where
  "ProvisioningSystem_init workspace_dir max_concurrent_arg environ fs =
     (let workspace =
            (case workspace_dir of
               None \<Rightarrow> (case environ ''WORKSPACE'' of None \<Rightarrow> ''/workspace'' | Some w \<Rightarrow> w)
             | Some w \<Rightarrow> w);
          n = (case max_concurrent_arg of None \<Rightarrow> 5 | Some k \<Rightarrow> k);
          md = path_join (path_join workspace ''forge'') ''models'';
          ld = path_join workspace ''logs'';
          lf = path_join ld ''provision.log''
      in if n < 0 then (fs, Raises (ValueError ''Semaphore initial value must be >= 0''))
         else
           (case mkdir_parents fs md of
              Inl e \<Rightarrow> (fs, Raises e)
            | Inr fs1 \<Rightarrow>
                (case mkdir_parents fs1 ld of
                   Inl e \<Rightarrow> (fs1, Raises e)
                 | Inr fs2 \<Rightarrow>
                     (if path_exists fs2 lf then fs2 else fs2(lf \<mapsto> File []),
                      Returns \<lparr>models_dir = md, logs_dir = ld, dry_run = False,
                        max_concurrent = n,
                        token_validator = \<lparr>hf_token = environ ''HF_TOKEN'',
                          civitai_token = environ ''CIVITAI_TOKEN''\<rparr>\<rparr>))))"

definition category_mapping :: "(string \<times> string) list" where
  "category_mapping =
     [(''checkpoints'', ''Stable-diffusion''),
      (''lora'', ''Lora''),
      (''vae'', ''VAE''),
      (''controlnet'', ''ControlNet''),
      (''esrgan'', ''ESRGAN''),
      (''embeddings'', ''embeddings''),
      (''hypernetworks'', ''hypernetworks''),
      (''text_encoder'', ''text_encoder''),
      (''clip'', ''text_encoder'')]"

definition get_category_dir :: "string \<Rightarrow> string" where
  "get_category_dir category =
     (case map_of category_mapping category of None \<Rightarrow> category | Some d \<Rightarrow> d)"

subsection \<open>Coroutines and what awaiting them gives\<close>

text \<open>
  Calling an \<^verbatim>\<open>async def\<close> runs nothing: it returns a coroutine object, named here by
  the function and its arguments. The parsed manifest of the file entry point is the
  \<^verbatim>\<open>models\<close> table: category, then model name, then the entry.
\<close>

type_synonym raw_config = "(string \<times> (string \<times> toml) list) list"

type_synonym typed_config = "(string \<times> (string \<times> ModelConfigPydantic) list) list"

datatype coroutine =
    create_typed_download_task ModelConfig
  | download_huggingface_model_typed ModelConfig
  | download_civitai_model_typed ModelConfig
  | download_direct_url_typed ModelConfig
  | download_huggingface_model string "(string \<times> toml) list" string
  | download_civitai_model string "(string \<times> toml) list" string
  | download_direct_url string toml string

text \<open>The values \<^verbatim>\<open>asyncio.gather\<close> collects from the tasks.\<close>

datatype py_value =
    Result DownloadResult
  | Coroutine coroutine
  | PyBool bool

text \<open>
  Awaiting \<^verbatim>\<open>_create_typed_download_task(model_config)\<close> runs its body. The body
  calls the matching \<^verbatim>\<open>_download_*_typed\<close> function without awaiting it and returns
  what the call gives: a coroutine object. The enum has three members, so the
  \<^verbatim>\<open>else\<close> branch is never taken, and nothing in the body raises.
\<close>

definition await_create_typed_download_task :: "ModelConfig \<Rightarrow> py_value outcome" where
  "await_create_typed_download_task model_config =
     (if mc_source model_config = HUGGINGFACE then
        Returns (Coroutine (download_huggingface_model_typed model_config))
      else if mc_source model_config = CIVITAI then
        Returns (Coroutine (download_civitai_model_typed model_config))
      else if mc_source model_config = DIRECT_URL then
        Returns (Coroutine (download_direct_url_typed model_config))
      else
        Returns (Result \<lparr>dr_model_name = mc_name model_config, dr_success = False,
          dr_error_message = Some (''Unknown source: '' @ ModelSource_str (mc_source model_config)),
          dr_file_path = None, dr_size_bytes = None\<rparr>))"

subsection \<open>\<^verbatim>\<open>_execute_concurrent_downloads\<close>\<close>

text \<open>
  Each task is wrapped in \<^verbatim>\<open>download_with_semaphore\<close> and the wrappers are gathered
  with \<^verbatim>\<open>return_exceptions=True\<close>, so the list holds, in submission order, what each
  task returned or the exception it raised. \<open>aw\<close> says what awaiting a task gives.
  With a semaphore of value 0 no wrapper is ever admitted and the gather does not
  complete: the function does not return (\<open>None\<close>).
\<close>

fun convert_exception :: "nat \<times> py_value outcome \<Rightarrow> py_value" where
  "convert_exception (i, Raises e) =
     Result \<lparr>dr_model_name = ''model_'' @ str_nat i, dr_success = False,
       dr_error_message = Some (str_of e), dr_file_path = None, dr_size_bytes = None\<rparr>"
| "convert_exception (i, Returns v) = v"

definition execute_concurrent_downloads ::
  "int \<Rightarrow> ('t \<Rightarrow> py_value outcome) \<Rightarrow> 't list \<Rightarrow> py_value list option" where
  "execute_concurrent_downloads semaphore_value aw download_tasks =
     (if download_tasks \<noteq> [] \<and> semaphore_value \<le> 0 then None
      else Some (map convert_exception (enumerate 0 (map aw download_tasks))))"

subsection \<open>\<^verbatim>\<open>_download_models_typed\<close>\<close>

text \<open>Lines 283 to 295: the enum lookup, then the dataclass with its validation.\<close>

definition build_model_config ::
  "string \<Rightarrow> string \<Rightarrow> ModelConfigPydantic \<Rightarrow> py_exception + ModelConfig" where
  "build_model_config model_name target_dir model_config_data =
     (case ModelSource_of (d_source model_config_data) of
        Inl e \<Rightarrow> Inl e
      | Inr src \<Rightarrow>
          post_init \<lparr>mc_name = model_name, mc_source = src, mc_target_dir = target_dir,
            mc_repo = d_repo model_config_data,
            mc_version_id = d_version_id model_config_data,
            mc_url = (if truthy (d_url model_config_data) then d_url model_config_data else None),
            mc_filename = d_filename model_config_data,
            mc_file = d_file model_config_data,
            mc_gated = d_gated model_config_data,
            mc_headers = d_headers model_config_data\<rparr>)"

text \<open>
  The two lists the function fills and the log records it emits. An element of
  \<open>download_tasks\<close> stands for the coroutine \<^verbatim>\<open>_create_typed_download_task(model_config)\<close>,
  which is truthy, so every one that is created is appended.
\<close>

record typed_state =
  download_tasks :: "ModelConfig list"
  model_configs :: "ModelConfig list"
  trace :: "event list"

definition typed_model_step ::
  "bool \<Rightarrow> string \<Rightarrow> string \<Rightarrow> ModelConfigPydantic \<Rightarrow> typed_state \<Rightarrow> typed_state" where
  "typed_model_step dry target_dir model_name model_config_data st =
     (case build_model_config model_name target_dir model_config_data of
        Inl e \<Rightarrow>
          st\<lparr>trace := trace st @
            [Log ERROR (''Invalid model configuration for '' @ model_name @ '': '' @ str_of e)]\<rparr>
      | Inr model_config \<Rightarrow>
          if dry then
            st\<lparr>model_configs := model_configs st @ [model_config],
               trace := trace st @
                 [Log INFO (''Would download '' @ model_name @ '' to '' @ target_dir)]\<rparr>
          else
            st\<lparr>model_configs := model_configs st @ [model_config],
               download_tasks := download_tasks st @ [model_config]\<rparr>)"

fun typed_models_loop ::
  "bool \<Rightarrow> string \<Rightarrow> (string \<times> ModelConfigPydantic) list \<Rightarrow> typed_state \<Rightarrow> typed_state" where
  "typed_models_loop dry target_dir [] st = st"
| "typed_models_loop dry target_dir ((model_name, model_config_data) # rest) st =
     typed_models_loop dry target_dir rest
       (typed_model_step dry target_dir model_name model_config_data st)"

text \<open>
  The loop over the categories. \<^verbatim>\<open>mkdir\<close> is outside the inner \<^verbatim>\<open>try\<close>: when it
  raises, the exception leaves the function (third component).
\<close>

fun typed_categories_loop ::
  "ProvisioningSystem \<Rightarrow> typed_config \<Rightarrow> fs \<Rightarrow> typed_state
     \<Rightarrow> fs \<times> typed_state \<times> py_exception option" where
  "typed_categories_loop sys [] fs st = (fs, st, None)"
| "typed_categories_loop sys ((category, models) # rest) fs st =
     (let target_dir = path_join (models_dir sys) (get_category_dir category)
      in if \<not> dry_run sys then
           (case mkdir_parents fs target_dir of
              Inl e \<Rightarrow> (fs, st, Some e)
            | Inr fs1 \<Rightarrow>
                typed_categories_loop sys rest fs1
                  (typed_models_loop (dry_run sys) target_dir models st))
         else
           typed_categories_loop sys rest fs
             (typed_models_loop (dry_run sys) target_dir models st))"

text \<open>
  \<^verbatim>\<open>sum(1 for r in results if r.success)\<close> reads the attribute \<^verbatim>\<open>success\<close> of every
  element; a coroutine object and a bool have none.
\<close>

fun as_results :: "py_value list \<Rightarrow> py_exception + DownloadResult list" where
  "as_results [] = Inr []"
| "as_results (Result r # vs) =
     (case as_results vs of Inl e \<Rightarrow> Inl e | Inr rs \<Rightarrow> Inr (r # rs))"
| "as_results (Coroutine c # vs) =
     Inl (AttributeError ''coroutine object has no attribute success'')"
| "as_results (PyBool b # vs) =
     Inl (AttributeError ''bool object has no attribute success'')"

text \<open>
  The result is the file system afterwards, the log, and how the call ends:
  \<open>None\<close> when it does not return, else the exception or the summary.
\<close>

definition download_models_typed ::
  "ProvisioningSystem \<Rightarrow> typed_config \<Rightarrow> fs
     \<Rightarrow> fs \<times> event list \<times> ProvisioningSummary outcome option" where
  "download_models_typed sys config fs =
     (case typed_categories_loop sys config fs
             \<lparr>download_tasks = [], model_configs = [], trace = []\<rparr> of
        (fs1, st, Some e) \<Rightarrow> (fs1, trace st, Some (Raises e))
      | (fs1, st, None) \<Rightarrow>
          if dry_run sys then
            (fs1,
             trace st @ [Log INFO ''Dry run completed - all configurations are valid''],
             Some (Returns \<lparr>total_models = int (length (model_configs st)),
               successful_downloads = int (length (model_configs st)),
               failed_downloads = 0, skipped_models = 0, results = []\<rparr>))
          else if download_tasks st = [] then
            (fs1,
             trace st @ [Log WARNING ''No models to download''],
             Some (Returns \<lparr>total_models = 0, successful_downloads = 0,
               failed_downloads = 0, skipped_models = 0, results = []\<rparr>))
          else
            (let tr = trace st @
                   [Log INFO (''Starting '' @ str_nat (length (download_tasks st)) @
                      '' parallel downloads...'')]
             in case execute_concurrent_downloads (max_concurrent sys)
                       await_create_typed_download_task (download_tasks st) of
                  None \<Rightarrow> (fs1, tr, None)
                | Some vs \<Rightarrow>
                    (case as_results vs of
                       Inl e \<Rightarrow> (fs1, tr, Some (Raises e))
                     | Inr rs \<Rightarrow>
                         (let successful = int (length (filter dr_success rs));
                              failed = int (length rs) - successful
                          in (fs1,
                              tr @ [Log INFO (''Download results: '' @ str_int successful @
                                 '' succeeded, '' @ str_int failed @ '' failed'')],
                              Some (Returns \<lparr>total_models = int (length rs),
                                successful_downloads = successful,
                                failed_downloads = failed, skipped_models = 0,
                                results = rs\<rparr>))))))"

subsection \<open>Token validation before the downloads\<close>

fun dict_get :: "(string \<times> 'v) list \<Rightarrow> string \<Rightarrow> 'v \<Rightarrow> 'v" where
  "dict_get d k dflt = (case map_of d k of None \<Rightarrow> dflt | Some v \<Rightarrow> v)"

text \<open>\<^verbatim>\<open>_find_gated_models\<close>: the dict entries whose \<^verbatim>\<open>gated\<close> value is truthy.\<close>

fun gated_entry :: "string \<times> toml \<Rightarrow> (string \<times> toml) list list" where
  "gated_entry (model_name, TTable model_config) =
     (if toml_truthy (dict_get model_config ''gated'' (TBool False)) then [model_config] else [])"
| "gated_entry (model_name, other) = []"

definition find_gated_models :: "raw_config \<Rightarrow> (string \<times> toml) list list" where
  "find_gated_models config =
     concat (map (\<lambda>(category, models). concat (map gated_entry models)) config)"

definition log_gated_model_error :: "(string \<times> toml) list \<Rightarrow> string \<Rightarrow> event list" where
  "log_gated_model_error model platform =
     [Log ERROR ''GATED MODEL ACCESS DENIED'',
      Log ERROR (''Model: '' @
        toml_text (dict_get model ''repo'' (dict_get model ''version_id'' (TStr ''unknown'')))),
      Log ERROR (''Platform: '' @ platform),
      Log ERROR ''Reason: Terms of Service not accepted or invalid token''] @
     (if platform = ''HuggingFace'' then
        (if toml_truthy (dict_get model ''repo'' (TStr [])) then
           [Log ERROR (''Action: Visit https://huggingface.co/'' @
              toml_text (dict_get model ''repo'' (TStr [])) @
              '' and click 'Agree and access repository' '')]
         else [])
      else if platform = ''CivitAI'' then
        [Log ERROR ''Action: Ensure you have a valid CivitAI API token'']
      else []) @
     [Log ERROR ''Status: SKIPPED'', Log ERROR []]"

text \<open>The loop at the end of \<^verbatim>\<open>_validate_tokens\<close>, for one gated model.\<close>

definition gated_model_status :: "bool \<Rightarrow> bool \<Rightarrow> (string \<times> toml) list \<Rightarrow> event list" where
  "gated_model_status hf_valid civitai_valid model =
     (let source = dict_get model ''source'' (TStr ''unknown'')
      in if source = TStr ''huggingface'' \<and> \<not> hf_valid then
           log_gated_model_error model ''HuggingFace''
         else if source = TStr ''civitai'' \<and> \<not> civitai_valid then
           log_gated_model_error model ''CivitAI''
         else [])"

text \<open>The answers the two probes would get, were they sent.\<close>

record probes =
  hf_probe :: "http_response outcome"
  civitai_probe :: "http_response outcome"

definition validate_tokens ::
  "ProvisioningSystem \<Rightarrow> probes \<Rightarrow> raw_config \<Rightarrow> event list \<times> unit outcome" where
  "validate_tokens sys net config =
     (let gated_models = find_gated_models config
      in if gated_models = [] then
           ([Log INFO ''Validating authentication tokens...'',
             Log INFO ''No gated models found, skipping token validation''],
            Returns ())
         else
           (case validate_hf_token (token_validator sys) (hf_probe net) of
              (ev1, Raises e) \<Rightarrow>
                (Log INFO ''Validating authentication tokens...'' # ev1, Raises e)
            | (ev1, Returns hf_valid) \<Rightarrow>
                (case validate_civitai_token (token_validator sys) (civitai_probe net) of
                   (ev2, Raises e) \<Rightarrow>
                     (Log INFO ''Validating authentication tokens...'' # ev1 @
                        [if hf_valid then Log INFO ''HuggingFace token is valid''
                         else Log WARNING ''HuggingFace token is invalid or missing''] @ ev2,
                      Raises e)
                 | (ev2, Returns civitai_valid) \<Rightarrow>
                     (Log INFO ''Validating authentication tokens...'' # ev1 @
                        [if hf_valid then Log INFO ''HuggingFace token is valid''
                         else Log WARNING ''HuggingFace token is invalid or missing''] @ ev2 @
                        [if civitai_valid then Log INFO ''CivitAI token is valid''
                         else Log WARNING ''CivitAI token is invalid or missing''] @
                        concat (map (gated_model_status hf_valid civitai_valid) gated_models),
                      Returns ()))))"

subsection \<open>\<^verbatim>\<open>_download_models\<close>, the path of the file entry point\<close>

definition detect_source :: "(string \<times> toml) list \<Rightarrow> string" where
  "detect_source model_config =
     (if map_of model_config ''repo'' \<noteq> None then ''huggingface''
      else if map_of model_config ''version_id'' \<noteq> None then ''civitai''
      else if map_of model_config ''url'' \<noteq> None then ''url''
      else ''unknown'')"

text \<open>
  \<^verbatim>\<open>_create_download_task\<close> is a plain function: it returns the coroutine of the
  matching \<^verbatim>\<open>_download_*\<close> method, or \<^verbatim>\<open>None\<close> after logging an error.
\<close>

fun create_download_task :: "string \<Rightarrow> toml \<Rightarrow> string \<Rightarrow> event list \<times> coroutine option" where
  "create_download_task model_name (TStr u) target_dir =
     ([], Some (download_direct_url model_name (TStr u) target_dir))"
| "create_download_task model_name (TTable model_config) target_dir =
     (let source = dict_get model_config ''source'' (TStr (detect_source model_config))
      in if source = TStr ''huggingface'' then
           ([], Some (download_huggingface_model model_name model_config target_dir))
         else if source = TStr ''civitai'' then
           ([], Some (download_civitai_model model_name model_config target_dir))
         else if source = TStr ''url'' then
           ([], Some (download_direct_url model_name (TTable model_config) target_dir))
         else
           ([Log ERROR (''Unknown source '' @ toml_text source @ '' for model '' @ model_name)],
            None))"
| "create_download_task model_name other target_dir =
     ([Log ERROR (''Invalid model config for '' @ model_name)], None)"

record legacy_state =
  legacy_tasks :: "coroutine list"
  legacy_trace :: "event list"

definition legacy_model_step ::
  "bool \<Rightarrow> string \<Rightarrow> string \<Rightarrow> toml \<Rightarrow> legacy_state \<Rightarrow> legacy_state" where
  "legacy_model_step dry target_dir model_name model_config st =
     (if dry then
        st\<lparr>legacy_trace := legacy_trace st @
          [Log INFO (''Would download '' @ model_name @ '' to '' @ target_dir)]\<rparr>
      else
        (case create_download_task model_name model_config target_dir of
           (evs, None) \<Rightarrow> st\<lparr>legacy_trace := legacy_trace st @ evs\<rparr>
         | (evs, Some task) \<Rightarrow>
             st\<lparr>legacy_tasks := legacy_tasks st @ [task],
                legacy_trace := legacy_trace st @ evs\<rparr>))"

fun legacy_models_loop ::
  "bool \<Rightarrow> string \<Rightarrow> (string \<times> toml) list \<Rightarrow> legacy_state \<Rightarrow> legacy_state" where
  "legacy_models_loop dry target_dir [] st = st"
| "legacy_models_loop dry target_dir ((model_name, model_config) # rest) st =
     legacy_models_loop dry target_dir rest
       (legacy_model_step dry target_dir model_name model_config st)"

fun legacy_categories_loop ::
  "ProvisioningSystem \<Rightarrow> raw_config \<Rightarrow> fs \<Rightarrow> legacy_state
     \<Rightarrow> fs \<times> legacy_state \<times> py_exception option" where
  "legacy_categories_loop sys [] fs st = (fs, st, None)"
| "legacy_categories_loop sys ((category, models) # rest) fs st =
     (let target_dir = path_join (models_dir sys) (get_category_dir category)
      in if \<not> dry_run sys then
           (case mkdir_parents fs target_dir of
              Inl e \<Rightarrow> (fs, st, Some e)
            | Inr fs1 \<Rightarrow>
                legacy_categories_loop sys rest fs1
                  (legacy_models_loop (dry_run sys) target_dir models st))
         else
           legacy_categories_loop sys rest fs
             (legacy_models_loop (dry_run sys) target_dir models st))"

text \<open>
  The tasks go to \<^verbatim>\<open>asyncio.gather(*download_tasks, return_exceptions=True)\<close> as they
  are: the semaphore is not used on this path. A result counts as a success when it
  \<^verbatim>\<open>is True\<close>.
\<close>

definition download_models ::
  "ProvisioningSystem \<Rightarrow> (coroutine \<Rightarrow> py_value outcome) \<Rightarrow> raw_config \<Rightarrow> fs
     \<Rightarrow> fs \<times> event list \<times> bool outcome" where
  "download_models sys aw config fs =
     (case legacy_categories_loop sys config fs \<lparr>legacy_tasks = [], legacy_trace = []\<rparr> of
        (fs1, st, Some e) \<Rightarrow> (fs1, legacy_trace st, Raises e)
      | (fs1, st, None) \<Rightarrow>
          if dry_run sys then
            (fs1,
             legacy_trace st @ [Log INFO ''Dry run completed - all configurations are valid''],
             Returns True)
          else if legacy_tasks st = [] then
            (fs1, legacy_trace st @ [Log WARNING ''No models to download''], Returns True)
          else
            (let gathered = map aw (legacy_tasks st);
                 successes = length (filter (\<lambda>r. r = Returns (PyBool True)) gathered);
                 failures = length gathered - successes
             in (fs1,
                 legacy_trace st @
                   [Log INFO (''Starting '' @ str_nat (length (legacy_tasks st)) @
                      '' parallel downloads...''),
                    Log INFO (''Download results: '' @ str_nat successes @
                      '' succeeded, '' @ str_nat failures @ '' failed'')],
                 Returns (failures = 0))))"

subsection \<open>The two entry points\<close>

text \<open>
  \<^verbatim>\<open>provision_from_url\<close> from line 112 on. The manifest has been fetched and parsed
  (\<open>config_dict\<close>) and turned into the pydantic model (\<open>config\<close>) by code outside the
  orchestrator; both are inputs here. Any exception is logged and wrapped in a
  \<^verbatim>\<open>ProvisioningError\<close>.
\<close>

definition provision_from_url ::
  "ProvisioningSystem \<Rightarrow> probes \<Rightarrow> raw_config \<Rightarrow> typed_config \<Rightarrow> fs
     \<Rightarrow> fs \<times> event list \<times> ProvisioningSummary outcome option" where
  "provision_from_url sys net config_dict config fs =
     (case validate_tokens sys net config_dict of
        (ev1, Raises e) \<Rightarrow>
          (fs, ev1 @ [Log ERROR (''Provisioning failed: '' @ str_of e)],
           Some (Raises (ProvisioningError (''Provisioning from URL failed: '' @ str_of e))))
      | (ev1, Returns u) \<Rightarrow>
          (case download_models_typed sys config fs of
             (fs1, ev2, None) \<Rightarrow> (fs1, ev1 @ ev2, None)
           | (fs1, ev2, Some (Raises e)) \<Rightarrow>
               (fs1, ev1 @ ev2 @ [Log ERROR (''Provisioning failed: '' @ str_of e)],
                Some (Raises (ProvisioningError (''Provisioning from URL failed: '' @ str_of e))))
           | (fs1, ev2, Some (Returns summary)) \<Rightarrow>
               (fs1,
                ev1 @ ev2 @
                  [if failed_downloads summary = 0 then
                     Log INFO ''Provisioning completed successfully''
                   else
                     Log WARNING (''Provisioning completed with '' @
                       str_int (failed_downloads summary) @ '' failures'')],
                Some (Returns summary))))"

text \<open>
  \<^verbatim>\<open>provision_from_file\<close> from line 145 on, with the parsed manifest as input. Any
  exception is logged and answered with \<^verbatim>\<open>False\<close>.
\<close>

definition provision_from_file ::
  "ProvisioningSystem \<Rightarrow> probes \<Rightarrow> (coroutine \<Rightarrow> py_value outcome) \<Rightarrow> raw_config \<Rightarrow> fs
     \<Rightarrow> fs \<times> event list \<times> bool outcome" where
  "provision_from_file sys net aw config fs =
     (case validate_tokens sys net config of
        (ev1, Raises e) \<Rightarrow>
          (fs, ev1 @ [Log ERROR (''Provisioning failed: '' @ str_of e)], Returns False)
      | (ev1, Returns u) \<Rightarrow>
          (case download_models sys aw config fs of
             (fs1, ev2, Raises e) \<Rightarrow>
               (fs1, ev1 @ ev2 @ [Log ERROR (''Provisioning failed: '' @ str_of e)], Returns False)
           | (fs1, ev2, Returns success) \<Rightarrow>
               (fs1,
                ev1 @ ev2 @
                  [if success then Log INFO ''Provisioning completed successfully''
                   else Log WARNING ''Provisioning completed with some failures''],
                Returns success)))"

section \<open>The downloaders\<close>

subsection \<open>The network and the text searches\<close>



















subsection \<open>Writing the body to the target file\<close>

text \<open>
  The chunks come from \<^verbatim>\<open>response.content.iter_chunked(8192)\<close>; once the body has been
  read as text the stream is at its end and yields nothing.
\<close>

definition write_chunks :: "fs \<Rightarrow> string \<Rightarrow> string list \<Rightarrow> fs" where
  "write_chunks fs target_file chunks = fold (\<lambda>c f. write_chunk f target_file c) chunks fs"

text \<open>
  From the content length to \<^verbatim>\<open>return True\<close>, the same lines in both downloaders:
  the parent directory is made, the file is opened for writing and the chunks are
  written as they arrive. An exception leaves with what has been written so far. The
  progress records are not part of the trace.
\<close>

definition save_body ::
  "bool \<Rightarrow> http_response \<Rightarrow> string \<Rightarrow> fs \<Rightarrow> fs \<times> py_exception option" where
  "save_body body_consumed response target_file fs =
     (case content_length response of
        Raises e \<Rightarrow> (fs, Some e)
      | Returns total_size \<Rightarrow>
          (case mkdir_parents fs (path_parent target_file) of
             Inl e \<Rightarrow> (fs, Some e)
           | Inr fs1 \<Rightarrow>
               (case open_wb fs1 target_file of
                  Inl e \<Rightarrow> (fs1, Some e)
                | Inr fs2 \<Rightarrow>
                    if body_consumed then (fs2, None)
                    else (write_chunks fs2 target_file (body_chunks response),
                          body_error response))))"

subsection \<open>Direct URLs (downloaders/direct.py)\<close>









subsection \<open>CivitAI (downloaders/civitai.py)\<close>












subsection \<open>HuggingFace (downloaders/huggingface.py)\<close>

text \<open>
  The huggingface\_hub library is not part of the sources. It is an input: whether the
  import worked, what \<^verbatim>\<open>HfApi.repo_info\<close> answers for a repository, and what
  \<^verbatim>\<open>hf_hub_download(repo_id, filename, local_dir)\<close> does to the file system and
  returns.
\<close>

record hub_library =
  HF_AVAILABLE :: bool
  repo_info :: "string \<Rightarrow> unit outcome"
  hf_hub_download :: "string \<Rightarrow> string \<Rightarrow> string \<Rightarrow> fs \<Rightarrow> fs \<times> string outcome"

definition can_access_repo :: "hub_library \<Rightarrow> string \<Rightarrow> event list \<times> bool" where
  "can_access_repo lib repo_id =
     (if \<not> HF_AVAILABLE lib then ([], False)
      else
        (case repo_info lib repo_id of
           Raises e \<Rightarrow> ([HubCall (''repo_info '' @ repo_id)], False)
         | Returns u \<Rightarrow> ([HubCall (''repo_info '' @ repo_id)], True)))"

definition hf_intro :: "string \<Rightarrow> string \<Rightarrow> string \<Rightarrow> string \<Rightarrow> event list" where
  "hf_intro model_name repo_id filename target_dir =
     [Log INFO (''Downloading '' @ model_name @ '' from HuggingFace''),
      Log INFO (''    Repository: '' @ repo_id),
      Log INFO (''    File: '' @ filename),
      Log INFO (''    Target: '' @ target_dir)]"

text \<open>
  \<^verbatim>\<open>HuggingFaceDownloader.download\<close>, with \<^verbatim>\<open>_download_sync\<close> inlined: an exception
  of the library is logged and counts as no path.
\<close>

definition hf_download ::
  "hub_library \<Rightarrow> string \<Rightarrow> string \<Rightarrow> string \<Rightarrow> string \<Rightarrow> bool \<Rightarrow> fs
     \<Rightarrow> event list \<times> fs \<times> bool" where
  "hf_download lib model_name repo_id filename target_dir gated fs =
     (if \<not> HF_AVAILABLE lib then
        ([Log ERROR (''Cannot download '' @ model_name @ '': huggingface_hub not available'')],
         fs, False)
      else if path_exists fs (path_join target_dir filename) then
        (hf_intro model_name repo_id filename target_dir @
           [Log INFO (model_name @ '' already exists, skipping download'')],
         fs, True)
      else
        (case (if gated then can_access_repo lib repo_id else ([], True)) of
           (ev1, False) \<Rightarrow>
             (hf_intro model_name repo_id filename target_dir @ ev1 @
                [Log ERROR (''Cannot access gated repository: '' @ repo_id),
                 Log ERROR (''    Visit https://huggingface.co/'' @ repo_id @
                   '' to accept Terms of Service'')],
              fs, False)
         | (ev1, True) \<Rightarrow>
             (case hf_hub_download lib repo_id filename target_dir fs of
                (fs1, Raises e) \<Rightarrow>
                  (hf_intro model_name repo_id filename target_dir @ ev1 @
                     [HubCall (''hf_hub_download '' @ repo_id),
                      Log ERROR (''Download error: '' @ str_of e),
                      Log ERROR (''Failed to download '' @ model_name)],
                   fs1, False)
              | (fs1, Returns downloaded_path) \<Rightarrow>
                  (hf_intro model_name repo_id filename target_dir @ ev1 @
                     [HubCall (''hf_hub_download '' @ repo_id),
                      if downloaded_path \<noteq> [] then
                        Log INFO (''Successfully downloaded '' @ model_name)
                      else Log ERROR (''Failed to download '' @ model_name)],
                   fs1, downloaded_path \<noteq> []))))"

section \<open>The event loop\<close>

text \<open>
  \<^verbatim>\<open>asyncio.gather\<close> runs the coroutines it is given as tasks of one event loop. A
  task has not yet reached its download call, or is inside it (suspended on the
  network), or is done. The loop resumes one task at a time; a schedule lists the
  tasks in the order in which they are resumed.
\<close>

datatype phase = Waiting | Downloading | Done

record loop_state =
  semaphore :: int
  phases :: "phase list"

definition in_flight :: "loop_state \<Rightarrow> nat" where
  "in_flight s = length (filter (\<lambda>p. p = Downloading) (phases s))"

text \<open>
  \<^verbatim>\<open>download_with_semaphore(task)\<close> is \<^verbatim>\<open>async with self._semaphore: return await task\<close>.
  Resumed while it waits, the wrapper takes a slot if the value is positive and starts
  the task, else it keeps waiting. Resumed while the task is in flight, the task ends,
  by returning or by raising, and leaving the \<^verbatim>\<open>async with\<close> block gives the slot back
  either way.
\<close>

definition resume_with_semaphore :: "nat \<Rightarrow> loop_state \<Rightarrow> loop_state" where
  "resume_with_semaphore i s =
     (if i < length (phases s) then
        (case phases s ! i of
           Waiting \<Rightarrow>
             if 0 < semaphore s then
               s\<lparr>semaphore := semaphore s - 1, phases := (phases s)[i := Downloading]\<rparr>
             else s
         | Downloading \<Rightarrow>
             s\<lparr>semaphore := semaphore s + 1, phases := (phases s)[i := Done]\<rparr>
         | Done \<Rightarrow> s)
      else s)"

text \<open>
  A coroutine handed to \<^verbatim>\<open>gather\<close> as it is, the way \<^verbatim>\<open>_download_models\<close> does it:
  nothing stands between the task and its download call.
\<close>

definition resume_plain :: "nat \<Rightarrow> loop_state \<Rightarrow> loop_state" where
  "resume_plain i s =
     (if i < length (phases s) then
        (case phases s ! i of
           Waiting \<Rightarrow> s\<lparr>phases := (phases s)[i := Downloading]\<rparr>
         | Downloading \<Rightarrow> s\<lparr>phases := (phases s)[i := Done]\<rparr>
         | Done \<Rightarrow> s)
      else s)"

text \<open>
  The loop of \<^verbatim>\<open>_execute_concurrent_downloads\<close> and the loop of \<^verbatim>\<open>_download_models\<close>,
  for a number of tasks and a schedule. The semaphore holds \<^verbatim>\<open>max_concurrent\<close> in both
  systems; only the first loop uses it.
\<close>

definition typed_event_loop :: "ProvisioningSystem \<Rightarrow> nat \<Rightarrow> nat list \<Rightarrow> loop_state" where
  "typed_event_loop sys n_tasks schedule =
     fold resume_with_semaphore schedule
       \<lparr>semaphore = max_concurrent sys, phases = replicate n_tasks Waiting\<rparr>"

definition legacy_event_loop :: "ProvisioningSystem \<Rightarrow> nat \<Rightarrow> nat list \<Rightarrow> loop_state" where
  "legacy_event_loop sys n_tasks schedule =
     fold resume_plain schedule
       \<lparr>semaphore = max_concurrent sys, phases = replicate n_tasks Waiting\<rparr>"

section \<open>What a manifest holds\<close>

text \<open>
  The entries of a manifest, and the model configurations that
  \<^verbatim>\<open>_download_models_typed\<close> can construct from them: the entries for which the enum
  lookup and \<^verbatim>\<open>__post_init__\<close> both succeed, in manifest order.
\<close>

definition manifest_entries :: "typed_config \<Rightarrow> (string \<times> ModelConfigPydantic) list" where
  "manifest_entries config = concat (map snd config)"

definition constructed_in ::
  "string \<Rightarrow> (string \<times> ModelConfigPydantic) list \<Rightarrow> ModelConfig list" where
  "constructed_in target_dir models =
     concat (map (\<lambda>(model_name, d).
       case build_model_config model_name target_dir d of Inl e \<Rightarrow> [] | Inr c \<Rightarrow> [c]) models)"

definition constructed :: "ProvisioningSystem \<Rightarrow> typed_config \<Rightarrow> ModelConfig list" where
  "constructed sys config =
     concat (map (\<lambda>(category, models).
       constructed_in (path_join (models_dir sys) (get_category_dir category)) models) config)"

section \<open>Example inputs\<close>

definition example_system :: "bool \<Rightarrow> int \<Rightarrow> string option \<Rightarrow> ProvisioningSystem" where
  "example_system dry n token =
     \<lparr>models_dir = ''/workspace/forge/models'', logs_dir = ''/workspace/logs'',
      dry_run = dry, max_concurrent = n,
      token_validator = \<lparr>hf_token = token, civitai_token = None\<rparr>\<rparr>"

definition hub_entry :: "string option \<Rightarrow> bool \<Rightarrow> ModelConfigPydantic" where
  "hub_entry r g =
     \<lparr>d_source = Some ''huggingface'', d_repo = r, d_version_id = None, d_url = None,
      d_filename = None, d_file = Some ''weights.bin'', d_gated = g, d_headers = []\<rparr>"

text \<open>One entry that can be constructed and one without its \<^verbatim>\<open>repo\<close>.\<close>

definition example_manifest :: typed_config where
  "example_manifest =
     [(''checkpoints'',
       [(''good'', hub_entry (Some ''org/model'') False), (''bad'', hub_entry None False)])]"

text \<open>A gated hub model whose entry names its source, as parsed TOML and as typed.\<close>

definition gated_manifest_dict :: raw_config where
  "gated_manifest_dict =
     [(''checkpoints'',
       [(''flux'', TTable [(''source'', TStr ''huggingface''), (''repo'', TStr ''org/flux''),
                           (''gated'', TBool True)])])]"


text \<open>A gated hub model whose source is left to detection from the \<^verbatim>\<open>repo\<close> key.\<close>

definition detected_manifest_dict :: raw_config where
  "detected_manifest_dict =
     [(''checkpoints'',
       [(''flux'', TTable [(''repo'', TStr ''org/flux''), (''gated'', TBool True)])])]"

text \<open>Two direct URLs in the short form.\<close>

definition two_url_manifest_dict :: raw_config where
  "two_url_manifest_dict =
     [(''lora'', [(''a'', TStr ''https://host/a.bin''), (''b'', TStr ''https://host/b.bin'')])]"

definition ok_response :: http_response where
  "ok_response =
     \<lparr>status = 200, resp_headers = [], content_length = Returns 6, body_text = [],
      body_json = Returns (JObj [(''name'', JStr ''user'')]),
      body_chunks = [''abc'', ''def''], body_error = None\<rparr>"


definition not_found_response :: http_response where
  "not_found_response = ok_response\<lparr>status := 404, body_chunks := []\<rparr>"

definition no_probes :: probes where
  "no_probes =
     \<lparr>hf_probe = Raises (ClientError ''Cannot connect to host''),
      civitai_probe = Raises (ClientError ''Cannot connect to host'')\<rparr>"






section \<open>The success rate of a summary\<close>

text \<open>
  C5, as the code has it: the success rate is a percentage. It is 0 when
  \<open>total_models\<close> is 0 and otherwise 100 times \<open>successful_downloads\<close> divided by
  \<open>total_models\<close>.
\<close>

theorem success_rate_percentage:
  "(total_models s = 0 \<longrightarrow> success_rate s = 0) \<and>
   (total_models s \<noteq> 0 \<longrightarrow>
      success_rate s = 100 * (real_of_int (successful_downloads s) / real_of_int (total_models s)))"
  by (simp add: success_rate_def)

theorem success_rate_percentage_witness:
  "success_rate \<lparr>total_models = 4, successful_downloads = 3, failed_downloads = 1,
      skipped_models = 0, results = []\<rparr> = 75 \<and>
   success_rate \<lparr>total_models = 0, successful_downloads = 0, failed_downloads = 0,
      skipped_models = 0, results = []\<rparr> = 0"
  using success_rate_percentage
    [of "\<lparr>total_models = 4, successful_downloads = 3, failed_downloads = 1,
      skipped_models = 0, results = []\<rparr>"]
    success_rate_percentage
    [of "\<lparr>total_models = 0, successful_downloads = 0, failed_downloads = 0,
      skipped_models = 0, results = []\<rparr>"]
  by simp

text \<open>
  C5 as the specification words it (the rate equals successful divided by total) fails:
  with one success out of two the code returns 50, not one half.
\<close>

theorem success_rate_not_ratio:
  "success_rate \<lparr>total_models = 2, successful_downloads = 1, failed_downloads = 1,
      skipped_models = 0, results = []\<rparr> \<noteq> 1 / 2"
  by (simp add: success_rate_def)

section \<open>The typed download stage\<close>

lemma typed_models_loop_lists:
  "model_configs (typed_models_loop dry td models st) = model_configs st @ constructed_in td models \<and>
   download_tasks (typed_models_loop dry td models st) =
     download_tasks st @ (if dry then [] else constructed_in td models)"
proof (induction models arbitrary: st)
  case Nil
  show ?case by (simp add: constructed_in_def)
next
  case (Cons m models)
  obtain model_name d where m: "m = (model_name, d)" by (cases m)
  show ?case
    unfolding m
    by (cases "build_model_config model_name td d")
       (simp_all add: Cons.IH typed_model_step_def constructed_in_def)
qed

lemma typed_models_loop_requests:
  "filter is_request (trace (typed_models_loop dry td models st)) = filter is_request (trace st)"
proof (induction models arbitrary: st)
  case Nil
  show ?case by simp
next
  case (Cons m models)
  obtain model_name d where m: "m = (model_name, d)" by (cases m)
  show ?case
    unfolding m
    by (cases "build_model_config model_name td d")
       (simp_all add: Cons.IH typed_model_step_def)
qed

lemma typed_categories_loop_lists:
  "typed_categories_loop sys config fs st = (fs1, st1, None) \<Longrightarrow>
   model_configs st1 = model_configs st @ constructed sys config \<and>
   download_tasks st1 = download_tasks st @ (if dry_run sys then [] else constructed sys config)"
proof (induction config arbitrary: fs st)
  case Nil
  then show ?case by (simp add: constructed_def)
next
  case (Cons c config)
  obtain category models where c: "c = (category, models)" by (cases c)
  let ?td = "path_join (models_dir sys) (get_category_dir category)"
  show ?case
  proof (cases "dry_run sys")
    case True
    with Cons.prems c have
      "typed_categories_loop sys config fs (typed_models_loop True ?td models st) = (fs1, st1, None)"
      by (simp add: Let_def)
    from Cons.IH [OF this] True show ?thesis
      by (simp add: c constructed_def typed_models_loop_lists)
  next
    case False
    show ?thesis
    proof (cases "mkdir_parents fs ?td")
      case (Inl e)
      with Cons.prems c False show ?thesis by (simp add: Let_def)
    next
      case (Inr fs2)
      with Cons.prems c False have
        "typed_categories_loop sys config fs2 (typed_models_loop False ?td models st) = (fs1, st1, None)"
        by (simp add: Let_def)
      from Cons.IH [OF this] False show ?thesis
        by (simp add: c constructed_def typed_models_loop_lists)
    qed
  qed
qed

text \<open>In a dry run the loop touches no directory, raises nothing and sends nothing.\<close>

lemma typed_categories_loop_dry:
  "dry_run sys \<Longrightarrow>
   \<exists>st1. typed_categories_loop sys config fs st = (fs, st1, None) \<and>
     filter is_request (trace st1) = filter is_request (trace st)"
proof (induction config arbitrary: st)
  case Nil
  then show ?case by simp
next
  case (Cons c config)
  obtain category models where c: "c = (category, models)" by (cases c)
  let ?td = "path_join (models_dir sys) (get_category_dir category)"
  from Cons.IH [OF Cons.prems, of "typed_models_loop True ?td models st"]
  show ?case using Cons.prems
    by (simp add: c Let_def typed_models_loop_requests)
qed

text \<open>
  Every submitted task gives a coroutine object back, so reading \<^verbatim>\<open>r.success\<close> raises
  as soon as one task was submitted.
\<close>

lemma as_results_coroutines:
  "tasks \<noteq> [] \<Longrightarrow>
   \<exists>e. as_results (map convert_exception
          (enumerate k (map await_create_typed_download_task tasks))) = Inl e"
proof (induction tasks arbitrary: k)
  case Nil
  then show ?case by simp
next
  case (Cons t tasks)
  show ?case
    by (cases "mc_source t") (simp_all add: await_create_typed_download_task_def)
qed

lemma constructed_in_length: "length (constructed_in td models) \<le> length models"
proof (induction models)
  case Nil
  show ?case by (simp add: constructed_in_def)
next
  case (Cons m models)
  obtain model_name d where m: "m = (model_name, d)" by (cases m)
  from Cons.IH show ?case
    unfolding m constructed_in_def
    by (cases "build_model_config model_name td d") simp_all
qed

lemma constructed_length: "length (constructed sys config) \<le> length (manifest_entries config)"
proof (induction config)
  case Nil
  show ?case by (simp add: constructed_def manifest_entries_def)
next
  case (Cons c config)
  obtain category models where c: "c = (category, models)" by (cases c)
  from Cons.IH
    constructed_in_length [of "path_join (models_dir sys) (get_category_dir category)" models]
  show ?case
    by (simp add: c constructed_def manifest_entries_def)
qed

lemma example_dry_run:
  "download_models_typed (example_system True 5 None) example_manifest Map.empty =
     (Map.empty,
      [Log INFO ''Would download good to /workspace/forge/models/Stable-diffusion'',
       Log ERROR ''Invalid model configuration for bad: HuggingFace models require 'repo' field for bad'',
       Log INFO ''Dry run completed - all configurations are valid''],
      Some (Returns \<lparr>total_models = 1, successful_downloads = 1, failed_downloads = 0,
        skipped_models = 0, results = []\<rparr>))"
  by (simp add: download_models_typed_def example_system_def example_manifest_def hub_entry_def
      typed_model_step_def build_model_config_def ModelSource_of_def post_init_def
      path_join_def get_category_dir_def category_mapping_def Let_def)

text \<open>
  C1, as the code has it. Whenever \<^verbatim>\<open>_download_models_typed\<close> returns a summary, its
  total is the sum of the successful, failed and skipped counts, the skipped count is
  0, and the total is the number of entries whose model configuration could be
  constructed: an entry whose construction failed is logged and counted nowhere, so
  the total never exceeds the number of manifest entries and can fall short of it. In
  a dry run a summary is always returned.
\<close>

theorem summary_counts_constructed:
  "(dry_run sys \<longrightarrow>
      (\<exists>fs2 tr2 s2. download_models_typed sys config fs = (fs2, tr2, Some (Returns s2)))) \<and>
   (download_models_typed sys config fs = (fs1, tr, Some (Returns s)) \<longrightarrow>
      total_models s = successful_downloads s + failed_downloads s + skipped_models s \<and>
      skipped_models s = 0 \<and>
      total_models s = int (length (constructed sys config)) \<and>
      total_models s \<le> int (length (manifest_entries config)))"
proof (intro conjI impI)
  assume dry: "dry_run sys"
  from typed_categories_loop_dry [OF dry, of config fs
      "\<lparr>download_tasks = [], model_configs = [], trace = []\<rparr>"]
  obtain st1 where
    "typed_categories_loop sys config fs
       \<lparr>download_tasks = [], model_configs = [], trace = []\<rparr> = (fs, st1, None)"
    by blast
  then show "\<exists>fs2 tr2 s2. download_models_typed sys config fs = (fs2, tr2, Some (Returns s2))"
    using dry by (simp add: download_models_typed_def)
next
  assume ret: "download_models_typed sys config fs = (fs1, tr, Some (Returns s))"
  obtain fs2 st x where loop:
    "typed_categories_loop sys config fs
       \<lparr>download_tasks = [], model_configs = [], trace = []\<rparr> = (fs2, st, x)"
    by (cases "typed_categories_loop sys config fs
       \<lparr>download_tasks = [], model_configs = [], trace = []\<rparr>")
  have x: "x = None"
    using ret loop by (cases x) (simp_all add: download_models_typed_def)
  from typed_categories_loop_lists [OF loop [unfolded x]]
  have mc: "model_configs st = constructed sys config"
    and dt: "download_tasks st = (if dry_run sys then [] else constructed sys config)"
    by simp_all
  have s: "total_models s = int (length (constructed sys config)) \<and>
           successful_downloads s = total_models s \<and>
           failed_downloads s = 0 \<and> skipped_models s = 0"
  proof (cases "dry_run sys")
    case True
    with ret loop x mc show ?thesis
      by (auto simp add: download_models_typed_def)
  next
    case False
    show ?thesis
    proof (cases "download_tasks st = []")
      case True
      with ret loop x mc dt False show ?thesis
        by (auto simp add: download_models_typed_def)
    next
      case nonempty: False
      from as_results_coroutines [OF nonempty, of 0] obtain e where
        "as_results (map convert_exception
           (enumerate 0 (map await_create_typed_download_task (download_tasks st)))) = Inl e"
        by blast
      with ret loop x False nonempty show ?thesis
        by (auto simp add: download_models_typed_def Let_def execute_concurrent_downloads_def
            split: if_splits)
    qed
  qed
  have le: "length (constructed sys config) \<le> length (manifest_entries config)"
    by (rule constructed_length)
  from s le show "total_models s = successful_downloads s + failed_downloads s + skipped_models s"
    by simp
  from s show "skipped_models s = 0" by simp
  from s show "total_models s = int (length (constructed sys config))" by simp
  from s le show "total_models s \<le> int (length (manifest_entries config))" by simp
qed

theorem summary_counts_constructed_witness:
  "dry_run (example_system True 5 None) \<and>
   snd (snd (download_models_typed (example_system True 5 None) example_manifest Map.empty)) =
     Some (Returns \<lparr>total_models = 1, successful_downloads = 1, failed_downloads = 0,
        skipped_models = 0, results = []\<rparr>) \<and>
   length (constructed (example_system True 5 None) example_manifest) = 1 \<and>
   length (manifest_entries example_manifest) = 2"
  using summary_counts_constructed [of "example_system True 5 None" example_manifest Map.empty
      Map.empty
      "[Log INFO ''Would download good to /workspace/forge/models/Stable-diffusion'',
       Log ERROR ''Invalid model configuration for bad: HuggingFace models require 'repo' field for bad'',
       Log INFO ''Dry run completed - all configurations are valid'']"
      "\<lparr>total_models = 1, successful_downloads = 1, failed_downloads = 0,
        skipped_models = 0, results = []\<rparr>"]
    example_dry_run
  by (simp add: example_system_def manifest_entries_def example_manifest_def)

text \<open>
  C1 as the specification words it (the total counts the entries whose construction
  failed as well) fails: of the two entries of the example manifest one lacks its
  \<^verbatim>\<open>repo\<close>, and the summary has a total of 1.
\<close>

theorem summary_omits_failed_construction:
  "snd (snd (download_models_typed (example_system True 5 None) example_manifest Map.empty)) =
     Some (Returns \<lparr>total_models = 1, successful_downloads = 1, failed_downloads = 0,
        skipped_models = 0, results = []\<rparr>) \<and>
   length (manifest_entries example_manifest) = 2"
  by (simp add: example_dry_run) (simp add: manifest_entries_def example_manifest_def)

text \<open>
  Outside a dry run, with a working semaphore and at least one entry that can be
  constructed, the call ends in the exception of \<^verbatim>\<open>r.success\<close>: no summary is
  returned and no downloader has been called.
\<close>

lemma typed_download_raises:
  assumes "\<not> dry_run sys" and "0 < max_concurrent sys" and "constructed sys config \<noteq> []"
    and "download_models_typed sys config fs = (fs1, tr, r)"
  shows "\<exists>e. r = Some (Raises e)"
proof -
  obtain fs2 st x where loop:
    "typed_categories_loop sys config fs
       \<lparr>download_tasks = [], model_configs = [], trace = []\<rparr> = (fs2, st, x)"
    by (cases "typed_categories_loop sys config fs
       \<lparr>download_tasks = [], model_configs = [], trace = []\<rparr>")
  show ?thesis
  proof (cases x)
    case (Some e)
    with loop assms(4) show ?thesis by (auto simp add: download_models_typed_def)
  next
    case None
    from typed_categories_loop_lists [OF loop [unfolded None]] assms(1,3)
    have nonempty: "download_tasks st \<noteq> []" by simp
    from as_results_coroutines [OF nonempty, of 0] obtain e where
      "as_results (map convert_exception
         (enumerate 0 (map await_create_typed_download_task (download_tasks st)))) = Inl e"
      by blast
    with loop None assms nonempty show ?thesis
      by (auto simp add: download_models_typed_def Let_def execute_concurrent_downloads_def)
  qed
qed

section \<open>Dry runs\<close>




text \<open>The limit is 5 unless the caller gives another one, and it is never negative.\<close>

lemma default_limit:
  assumes "ProvisioningSystem_init workspace_dir max_concurrent_arg environ fs = (fs1, Returns sys)"
  shows "max_concurrent sys = (case max_concurrent_arg of None \<Rightarrow> 5 | Some k \<Rightarrow> k) \<and>
         0 \<le> max_concurrent sys \<and> \<not> dry_run sys"
  using assms
  by (auto simp add: ProvisioningSystem_init_def Let_def split: if_splits sum.splits)

section \<open>Exceptions of download tasks\<close>

text \<open>
  C10. With a semaphore that admits tasks, \<^verbatim>\<open>_execute_concurrent_downloads\<close> returns
  one value per submitted task, and for a task whose coroutine raised the value is a
  failed result whose name is \<^verbatim>\<open>model_\<close> followed by the task's index in the submission
  list and whose error message is the text of the exception. The name is made from
  the index alone: nothing of the task enters it.
\<close>

theorem exception_becomes_placeholder:
  assumes "0 < n" and "i < length tasks" and "aw (tasks ! i) = Raises e"
  shows "\<exists>vs. execute_concurrent_downloads n aw tasks = Some vs \<and>
           length vs = length tasks \<and>
           vs ! i = Result \<lparr>dr_model_name = ''model_'' @ str_nat i, dr_success = False,
             dr_error_message = Some (str_of e), dr_file_path = None, dr_size_bytes = None\<rparr>"
  using assms by (simp add: execute_concurrent_downloads_def nth_enumerate_eq)

lemma str_nat_1: "str_nat 1 = ''1''"
  by code_simp

theorem exception_becomes_placeholder_witness:
  "execute_concurrent_downloads 5
     (\<lambda>t. if t = download_direct_url ''sdxl'' (TStr ''https://host/x.bin'') ''/w/Lora''
           then Raises (ClientError ''connection reset'') else Returns (PyBool True))
     [download_direct_url ''vae'' (TStr ''https://host/v.bin'') ''/w/VAE'',
      download_direct_url ''sdxl'' (TStr ''https://host/x.bin'') ''/w/Lora''] =
   Some [PyBool True,
         Result \<lparr>dr_model_name = ''model_1'', dr_success = False,
           dr_error_message = Some ''connection reset'', dr_file_path = None,
           dr_size_bytes = None\<rparr>]"
  using exception_becomes_placeholder [of 5 1
      "[download_direct_url ''vae'' (TStr ''https://host/v.bin'') ''/w/VAE'',
        download_direct_url ''sdxl'' (TStr ''https://host/x.bin'') ''/w/Lora'']"
      "\<lambda>t. if t = download_direct_url ''sdxl'' (TStr ''https://host/x.bin'') ''/w/Lora''
             then Raises (ClientError ''connection reset'') else Returns (PyBool True)"
      "ClientError ''connection reset''"]
    str_nat_1
  by (simp add: execute_concurrent_downloads_def)

section \<open>Failed transfers\<close>






lemma open_wb_file: "open_wb fs t = Inr fs1 \<Longrightarrow> fs1 t = Some (File [])"
  by (auto simp add: open_wb_def split: option.splits node.splits)


lemma write_chunks_file:
  "fs t = Some (File cs) \<Longrightarrow> write_chunks fs t chunks t = Some (File (cs @ chunks))"
  unfolding write_chunks_def
  by (induction chunks arbitrary: fs cs) (simp_all add: write_chunk_def)



text \<open>
  What the transfer had written when it broke: the chunks that arrived before the
  exception are in the target file.
\<close>

lemma save_body_partial:
  assumes "content_length response = Returns n"
    and "mkdir_parents fs (path_parent t) = Inr fs1"
    and "open_wb fs1 t = Inr fs2"
    and "body_error response = Some e"
  shows "\<exists>fs3. save_body False response t fs = (fs3, Some e) \<and>
           fs3 t = Some (File (body_chunks response))"
  using assms open_wb_file [OF assms(3)]
  by (simp add: save_body_def write_chunks_file)
























text \<open>
  The HuggingFace downloader writes nothing itself: the file system after its
  \<^verbatim>\<open>download\<close> is the one before, or the one the library's \<^verbatim>\<open>hf_hub_download\<close> left.
\<close>

lemma hub_download_writes_through_library:
  "fst (snd (hf_download lib m repo_id filename d gated fs)) = fs \<or>
   fst (snd (hf_download lib m repo_id filename d gated fs)) =
     fst (hf_hub_download lib repo_id filename d fs)"
  by (cases "hf_hub_download lib repo_id filename d fs"; cases "can_access_repo lib repo_id")
     (auto simp add: hf_download_def split: outcome.splits bool.splits)

section \<open>Targets that already exist\<close>













section \<open>The name of the downloaded file\<close>











section \<open>Token validation\<close>

lemma validate_hf_token_sent:
  assumes "truthy (hf_token v)"
  shows "\<exists>evs b. validate_hf_token v probe = (evs, Returns b) \<and>
           filter is_request evs = [HttpGet ''https://huggingface.co/api/whoami-v2''] \<and>
           (probe = Returns response \<and> \<not> (200 \<le> status response \<and> status response < 300)
              \<longrightarrow> \<not> b)"
proof -
  obtain evs r where t: "validate_hf_token_try probe = (evs, r)"
    by (cases "validate_hf_token_try probe")
  have evs: "filter is_request evs = [HttpGet ''https://huggingface.co/api/whoami-v2'']"
    using t
    by (auto simp add: validate_hf_token_try_def
        split: outcome.splits if_splits json.splits)
  show ?thesis
  proof (cases r)
    case (Raises e)
    with t evs assms show ?thesis by (auto simp add: validate_hf_token_def)
  next
    case (Returns b)
    have "probe = Returns response \<and> \<not> (200 \<le> status response \<and> status response < 300)
        \<longrightarrow> \<not> b"
      using t Returns by (auto simp add: validate_hf_token_try_def)
    with t evs assms Returns show ?thesis by (simp add: validate_hf_token_def)
  qed
qed

lemma validate_civitai_token_sent:
  assumes "truthy (civitai_token v)"
  shows "\<exists>evs b. validate_civitai_token v probe = (evs, Returns b) \<and>
           filter is_request evs =
             [HttpGet ''https://civitai.com/api/v1/models?hidden=1&limit=1''] \<and>
           (probe = Returns response \<and> \<not> (200 \<le> status response \<and> status response < 300)
              \<longrightarrow> \<not> b)"
proof -
  obtain evs r where t: "validate_civitai_token_try probe = (evs, r)"
    by (cases "validate_civitai_token_try probe")
  have evs: "filter is_request evs =
      [HttpGet ''https://civitai.com/api/v1/models?hidden=1&limit=1'']"
    using t
    by (auto simp add: validate_civitai_token_try_def split: outcome.splits if_splits)
  show ?thesis
  proof (cases r)
    case (Raises e)
    with t evs assms show ?thesis by (auto simp add: validate_civitai_token_def)
  next
    case (Returns b)
    have "probe = Returns response \<and> \<not> (200 \<le> status response \<and> status response < 300)
        \<longrightarrow> \<not> b"
      using t Returns by (auto simp add: validate_civitai_token_try_def)
    with t evs assms Returns show ?thesis by (simp add: validate_civitai_token_def)
  qed
qed

text \<open>
  C7. For each platform: with no token in the environment (unset or empty) the
  validation returns \<^verbatim>\<open>False\<close> and sends nothing; for a probe answered with a status
  outside 200 to 299 it returns \<^verbatim>\<open>False\<close>; and whatever the probe does (a response of
  any status, a body that is not the expected JSON, an exception of the HTTP client)
  it returns a boolean and raises nothing. With a token, the probe is the one request
  it sends.
\<close>

theorem token_validation_contract:
  "(\<not> truthy (hf_token v) \<longrightarrow>
      snd (validate_hf_token v probe) = Returns False \<and>
      filter is_request (fst (validate_hf_token v probe)) = []) \<and>
   (probe = Returns response \<and> \<not> (200 \<le> status response \<and> status response < 300) \<longrightarrow>
      snd (validate_hf_token v probe) = Returns False) \<and>
   (\<exists>b. snd (validate_hf_token v probe) = Returns b) \<and>
   (truthy (hf_token v) \<longrightarrow>
      filter is_request (fst (validate_hf_token v probe)) =
        [HttpGet ''https://huggingface.co/api/whoami-v2'']) \<and>
   (\<not> truthy (civitai_token v) \<longrightarrow>
      snd (validate_civitai_token v probe) = Returns False \<and>
      filter is_request (fst (validate_civitai_token v probe)) = []) \<and>
   (probe = Returns response \<and> \<not> (200 \<le> status response \<and> status response < 300) \<longrightarrow>
      snd (validate_civitai_token v probe) = Returns False) \<and>
   (\<exists>b. snd (validate_civitai_token v probe) = Returns b) \<and>
   (truthy (civitai_token v) \<longrightarrow>
      filter is_request (fst (validate_civitai_token v probe)) =
        [HttpGet ''https://civitai.com/api/v1/models?hidden=1&limit=1''])"
proof -
  have hf: "snd (validate_hf_token v probe) = Returns False \<and>
      filter is_request (fst (validate_hf_token v probe)) = []"
    if "\<not> truthy (hf_token v)"
    using that by (simp add: validate_hf_token_def)
  have ci: "snd (validate_civitai_token v probe) = Returns False \<and>
      filter is_request (fst (validate_civitai_token v probe)) = []"
    if "\<not> truthy (civitai_token v)"
    using that by (simp add: validate_civitai_token_def)
  from hf ci validate_hf_token_sent [of v probe response]
    validate_civitai_token_sent [of v probe response]
  show ?thesis
    by (cases "truthy (hf_token v)"; cases "truthy (civitai_token v)") auto
qed

theorem token_validation_contract_witness:
  "validate_hf_token \<lparr>hf_token = None, civitai_token = Some ''c_secret''\<rparr>
      (Returns not_found_response) =
     ([Log WARNING ''No HF_TOKEN environment variable found''], Returns False) \<and>
   snd (validate_civitai_token \<lparr>hf_token = None, civitai_token = Some ''c_secret''\<rparr>
      (Returns not_found_response)) = Returns False \<and>
   filter is_request (fst (validate_civitai_token
      \<lparr>hf_token = None, civitai_token = Some ''c_secret''\<rparr> (Returns not_found_response))) =
     [HttpGet ''https://civitai.com/api/v1/models?hidden=1&limit=1''] \<and>
   snd (validate_hf_token \<lparr>hf_token = Some ''hf_secret'', civitai_token = Some []\<rparr>
      (Returns not_found_response)) = Returns False \<and>
   filter is_request (fst (validate_hf_token
      \<lparr>hf_token = Some ''hf_secret'', civitai_token = Some []\<rparr> (Returns not_found_response))) =
     [HttpGet ''https://huggingface.co/api/whoami-v2''] \<and>
   validate_civitai_token \<lparr>hf_token = Some ''hf_secret'', civitai_token = Some []\<rparr>
      (Returns not_found_response) =
     ([Log WARNING ''No CIVITAI_TOKEN environment variable found''], Returns False)"
  using token_validation_contract
      [of "\<lparr>hf_token = None, civitai_token = Some ''c_secret''\<rparr>"
        "Returns not_found_response" not_found_response]
    token_validation_contract
      [of "\<lparr>hf_token = Some ''hf_secret'', civitai_token = Some []\<rparr>"
        "Returns not_found_response" not_found_response]
  by (simp add: not_found_response_def ok_response_def validate_hf_token_def
      validate_civitai_token_def)

section \<open>Gated models and the file entry point\<close>

text \<open>
  Token validation returns whatever the tokens and the probes are, and the download
  stages do not read the tokens: the tasks that are dispatched and the way the run
  ends are the same for every state of the tokens.
\<close>

lemma validate_hf_token_returns: "\<exists>b. snd (validate_hf_token v probe) = Returns b"
proof (cases "truthy (hf_token v)")
  case True
  from validate_hf_token_sent [OF True, of probe undefined] show ?thesis by auto
next
  case False
  then show ?thesis by (auto simp add: validate_hf_token_def)
qed

lemma validate_civitai_token_returns: "\<exists>b. snd (validate_civitai_token v probe) = Returns b"
proof (cases "truthy (civitai_token v)")
  case True
  from validate_civitai_token_sent [OF True, of probe undefined] show ?thesis by auto
next
  case False
  then show ?thesis by (auto simp add: validate_civitai_token_def)
qed

lemma validate_tokens_returns: "snd (validate_tokens sys net config) = Returns ()"
proof -
  obtain ev1 b1 where h: "validate_hf_token (token_validator sys) (hf_probe net) = (ev1, Returns b1)"
    using validate_hf_token_returns [of "token_validator sys" "hf_probe net"]
    by (cases "validate_hf_token (token_validator sys) (hf_probe net)") auto
  obtain ev2 b2 where c:
    "validate_civitai_token (token_validator sys) (civitai_probe net) = (ev2, Returns b2)"
    using validate_civitai_token_returns [of "token_validator sys" "civitai_probe net"]
    by (cases "validate_civitai_token (token_validator sys) (civitai_probe net)") auto
  from h c show ?thesis
    by (simp add: validate_tokens_def Let_def)
qed

lemma typed_categories_loop_tokens:
  "typed_categories_loop (sys\<lparr>token_validator := tv\<rparr>) config fs st =
   typed_categories_loop sys config fs st"
  by (induction config arbitrary: fs st) (auto simp add: Let_def split: sum.splits)

lemma download_models_typed_tokens:
  "download_models_typed (sys\<lparr>token_validator := tv\<rparr>) config fs =
   download_models_typed sys config fs"
  by (simp add: download_models_typed_def typed_categories_loop_tokens
      split: prod.splits option.splits)

lemma legacy_categories_loop_tokens:
  "legacy_categories_loop (sys\<lparr>token_validator := tv\<rparr>) config fs st =
   legacy_categories_loop sys config fs st"
  by (induction config arbitrary: fs st) (auto simp add: Let_def split: sum.splits)

lemma provision_from_url_tokens:
  "snd (snd (provision_from_url (sys\<lparr>token_validator := tv\<rparr>) net2 config_dict config fs)) =
   snd (snd (provision_from_url sys net config_dict config fs))"
proof -
  obtain e1 where v1: "validate_tokens sys net config_dict = (e1, Returns ())"
    using validate_tokens_returns [of sys net config_dict]
    by (cases "validate_tokens sys net config_dict") auto
  obtain e2 where v2:
    "validate_tokens (sys\<lparr>token_validator := tv\<rparr>) net2 config_dict = (e2, Returns ())"
    using validate_tokens_returns [of "sys\<lparr>token_validator := tv\<rparr>" net2 config_dict]
    by (cases "validate_tokens (sys\<lparr>token_validator := tv\<rparr>) net2 config_dict") auto
  show ?thesis
    by (simp add: provision_from_url_def v1 v2 download_models_typed_tokens
        split: prod.splits option.splits outcome.splits)
qed

text \<open>
  A gated model whose entry names its source gets the error block when its
  platform's token is not valid.
\<close>

lemma named_source_is_logged:
  assumes "map_of model ''source'' = Some (TStr ''huggingface'')" and "\<not> hf_valid"
  shows "Log ERROR ''GATED MODEL ACCESS DENIED'' \<in> set (gated_model_status hf_valid civitai_valid model)"
  using assms by (simp add: gated_model_status_def log_gated_model_error_def)

text \<open>
  C8 at a manifest the file entry point accepts: one gated model, its source left to
  detection from the \<^verbatim>\<open>repo\<close> key, and no token in the environment. The model is
  dispatched to the HuggingFace downloader, but \<^verbatim>\<open>_validate_tokens\<close> reads the source
  with the default \<^verbatim>\<open>unknown\<close>, so it logs two warnings about the tokens and no error
  for the model.
\<close>

theorem detected_gated_model_not_logged:
  "find_gated_models detected_manifest_dict =
     [[(''repo'', TStr ''org/flux''), (''gated'', TBool True)]] \<and>
   fst (validate_tokens (example_system False 5 None) no_probes detected_manifest_dict) =
     [Log INFO ''Validating authentication tokens...'',
      Log WARNING ''No HF_TOKEN environment variable found'',
      Log WARNING ''HuggingFace token is invalid or missing'',
      Log WARNING ''No CIVITAI_TOKEN environment variable found'',
      Log WARNING ''CivitAI token is invalid or missing''] \<and>
   legacy_tasks (fst (snd (legacy_categories_loop (example_system False 5 None)
      detected_manifest_dict Map.empty \<lparr>legacy_tasks = [], legacy_trace = []\<rparr>))) =
     [download_huggingface_model ''flux'' [(''repo'', TStr ''org/flux''), (''gated'', TBool True)]
        ''/workspace/forge/models/Stable-diffusion'']"
  by (simp add: find_gated_models_def detected_manifest_dict_def validate_tokens_def
      example_system_def no_probes_def validate_hf_token_def validate_civitai_token_def
      gated_model_status_def legacy_model_step_def detect_source_def mkdir_parents_def
      path_join_def get_category_dir_def category_mapping_def Let_def)

text \<open>The same model with its source named: the error block is logged.\<close>

lemma named_gated_model_logged:
  "filter is_error_log
     (fst (validate_tokens (example_system False 5 None) no_probes gated_manifest_dict)) =
     log_gated_model_error
       [(''source'', TStr ''huggingface''), (''repo'', TStr ''org/flux''), (''gated'', TBool True)]
       ''HuggingFace''"
  by (simp add: find_gated_models_def gated_manifest_dict_def validate_tokens_def
      example_system_def no_probes_def validate_hf_token_def validate_civitai_token_def
      gated_model_status_def log_gated_model_error_def Let_def)

section \<open>How many downloads run at once\<close>

lemma in_flight_start:
  "i < length ps \<Longrightarrow> ps ! i = Waiting \<Longrightarrow>
   length (filter (\<lambda>p. p = Downloading) (ps[i := Downloading])) =
     Suc (length (filter (\<lambda>p. p = Downloading) ps))"
proof (induction ps arbitrary: i)
  case Nil
  then show ?case by simp
next
  case (Cons p ps)
  then show ?case by (cases i) auto
qed

lemma in_flight_finish:
  "i < length ps \<Longrightarrow> ps ! i = Downloading \<Longrightarrow>
   Suc (length (filter (\<lambda>p. p = Downloading) (ps[i := Done]))) =
     length (filter (\<lambda>p. p = Downloading) ps)"
proof (induction ps arbitrary: i)
  case Nil
  then show ?case by simp
next
  case (Cons p ps)
  then show ?case by (cases i) auto
qed

text \<open>
  Under the semaphore the downloads in flight and the free slots always add up to
  the initial value, and the number of free slots never goes below 0.
\<close>

lemma resume_with_semaphore_invariant:
  assumes "int (in_flight s) + semaphore s = n" and "0 \<le> semaphore s"
  shows "int (in_flight (resume_with_semaphore i s)) + semaphore (resume_with_semaphore i s) = n \<and>
         0 \<le> semaphore (resume_with_semaphore i s)"
proof (cases "i < length (phases s)")
  case False
  with assms show ?thesis by (simp add: resume_with_semaphore_def)
next
  case True
  show ?thesis
  proof (cases "phases s ! i")
    case Waiting
    with True assms in_flight_start [OF True Waiting] show ?thesis
      by (simp add: resume_with_semaphore_def in_flight_def)
  next
    case Downloading
    with True assms in_flight_finish [OF True Downloading] show ?thesis
      by (simp add: resume_with_semaphore_def in_flight_def)
  next
    case Done
    with True assms show ?thesis by (simp add: resume_with_semaphore_def)
  qed
qed

lemma fold_resume_invariant:
  "int (in_flight s) + semaphore s = n \<Longrightarrow> 0 \<le> semaphore s \<Longrightarrow>
   int (in_flight (fold resume_with_semaphore schedule s)) +
     semaphore (fold resume_with_semaphore schedule s) = n \<and>
   0 \<le> semaphore (fold resume_with_semaphore schedule s)"
proof (induction schedule arbitrary: s)
  case Nil
  then show ?case by simp
next
  case (Cons i schedule)
  from resume_with_semaphore_invariant [OF Cons.prems, of i]
  show ?case by (simp add: Cons.IH)
qed

text \<open>
  On the path of \<^verbatim>\<open>_execute_concurrent_downloads\<close> no schedule brings more tasks in
  flight than the semaphore's value.
\<close>

lemma semaphore_bounds_in_flight:
  assumes "0 \<le> max_concurrent sys"
  shows "int (in_flight (typed_event_loop sys n_tasks schedule)) \<le> max_concurrent sys"
proof -
  have "int (in_flight \<lparr>semaphore = max_concurrent sys, phases = replicate n_tasks Waiting\<rparr>) +
      semaphore \<lparr>semaphore = max_concurrent sys, phases = replicate n_tasks Waiting\<rparr> =
      max_concurrent sys"
    by (simp add: in_flight_def)
  from fold_resume_invariant [OF this, of schedule] assms show ?thesis
    by (simp add: typed_event_loop_def)
qed

text \<open>
  C2 at the file entry point, with a limit of 1 and a manifest of two direct URLs.
  \<^verbatim>\<open>_download_models\<close> hands both download coroutines to \<^verbatim>\<open>asyncio.gather\<close> without
  the semaphore; once the loop has started both, two downloads are in flight.
\<close>

theorem file_entry_point_ignores_limit:
  "max_concurrent (example_system False 1 None) = 1 \<and>
   legacy_tasks (fst (snd (legacy_categories_loop (example_system False 1 None)
      two_url_manifest_dict Map.empty \<lparr>legacy_tasks = [], legacy_trace = []\<rparr>))) =
     [download_direct_url ''a'' (TStr ''https://host/a.bin'') ''/workspace/forge/models/Lora'',
      download_direct_url ''b'' (TStr ''https://host/b.bin'') ''/workspace/forge/models/Lora''] \<and>
   in_flight (legacy_event_loop (example_system False 1 None) 2 [0, 1]) = 2 \<and>
   in_flight (typed_event_loop (example_system False 1 None) 2 [0, 1]) = 1"
  by (simp add: example_system_def two_url_manifest_dict_def legacy_model_step_def
      mkdir_parents_def path_join_def get_category_dir_def category_mapping_def Let_def
      legacy_event_loop_def typed_event_loop_def resume_plain_def resume_with_semaphore_def
      in_flight_def numeral_2_eq_2)

end
